theory Spec2Isabelle
  imports Main
begin

section \<open>Data model (types.ts, identical in the web and the mobile client)\<close>

text \<open>
  \<^verbatim>\<open>interface UserCreate { name: string; email: string }\<close> and
  \<^verbatim>\<open>interface User { id: number; name: string; email: string }\<close>.
  \<open>User\<close> has the two fields of \<open>UserCreate\<close> and the identifier, so it is written as
  an extension of \<open>userCreate\<close>; the field \<open>id\<close> is named \<open>id'\<close> because \<open>id\<close> is the
  identity function of HOL. Identifiers are integers.
\<close>

record userCreate =
  name :: string
  email :: string

record user = userCreate +
  id' :: int

text \<open>
  The five \<^verbatim>\<open>useState\<close> cells of \<^verbatim>\<open>App\<close> (App.tsx) and of \<^verbatim>\<open>Index\<close> (app/index.tsx):
  Collection Cache, Draft, EditTarget, Busy flag, Error slot.
\<close>

record state =
  users :: "user list"
  formData :: userCreate
  editingId :: "int option"
  loading :: bool
  error :: "string option"

text \<open>The initial values given to \<^verbatim>\<open>useState\<close>.\<close>

definition initial :: state where
  "initial = \<lparr>users = [], formData = \<lparr>name = '''', email = ''''\<rparr>, editingId = None,
     loading = False, error = None\<rparr>"

section \<open>JavaScript values the code tests\<close>

text \<open>
  A thrown value: an \<^verbatim>\<open>Error\<close> object with its message, or anything else.
  \<^verbatim>\<open>err instanceof Error ? err.message : dflt\<close> is \<open>error_message err dflt\<close>.
\<close>

datatype thrown = Error string | NonError

definition error_message :: "thrown \<Rightarrow> string \<Rightarrow> string" where
  "error_message err dflt = (case err of Error m \<Rightarrow> m | NonError \<Rightarrow> dflt)"

text \<open>
  \<^verbatim>\<open>String.prototype.trim\<close>: white space and line terminators are removed at both
  ends. Characters are code units below 256, so the white space is TAB, LF, VT, FF, CR,
  SPACE and NBSP; a string is truthy when it is not empty.
\<close>

definition is_ws :: "char \<Rightarrow> bool" where
  "is_ws c = (c \<in> set [CHR 0x09, CHR 0x0A, CHR 0x0B, CHR 0x0C, CHR 0x0D, CHR 0x20, CHR 0xA0])"

definition trim :: "string \<Rightarrow> string" where
  "trim s = rev (dropWhile is_ws (rev (dropWhile is_ws s)))"

section \<open>Resource Client (api/users.ts)\<close>

subsection \<open>The network\<close>

text \<open>
  A request as \<^verbatim>\<open>fetch\<close> receives it. The three URLs the clients build are
  \<^verbatim>\<open>API_BASE\<close>, \<^verbatim>\<open>`${API_BASE}/`\<close> and \<^verbatim>\<open>`${API_BASE}/${id}`\<close>; the body is
  \<^verbatim>\<open>JSON.stringify(user)\<close>, kept as the record it serialises.
\<close>

datatype meth = GET | POST | PUT | DELETE

datatype url = API_BASE | API_BASE_slash | API_BASE_id int

record request =
  http_method :: meth
  url :: url
  content_type :: "string option"
  body :: "userCreate option"

text \<open>
  A response: its status, and what \<^verbatim>\<open>res.json()\<close> settles to. \<^verbatim>\<open>res.json()\<close> is
  untyped and the TypeScript signature of the caller fixes the type it is read at, so
  the body has one reading as \<^verbatim>\<open>User[]\<close> and one as \<^verbatim>\<open>User\<close>; either may reject
  (a body that is not JSON).
\<close>

record response =
  status :: nat
  json_users :: "thrown + user list"
  json_user :: "thrown + user"

text \<open>\<^verbatim>\<open>res.ok\<close>: the status is in 200..299.\<close>

definition ok :: "response \<Rightarrow> bool" where
  "ok res = (200 \<le> status res \<and> status res \<le> 299)"

text \<open>
  The state of the network as the client sees it: the requests sent so far, in order,
  and the number of bodies read with \<^verbatim>\<open>res.json()\<close>. The remote side is a function
  from the requests sent so far (the last one is the one being answered) to what
  \<^verbatim>\<open>fetch\<close> settles to: a rejection, or a response.
\<close>

record net =
  sent :: "request list"
  parsed :: nat

type_synonym world = "request list \<Rightarrow> thrown + response"

definition fetch :: "world \<Rightarrow> request \<Rightarrow> net \<Rightarrow> (thrown + response) \<times> net" where
  "fetch w r n = (w (sent n @ [r]), n\<lparr>sent := sent n @ [r]\<rparr>)"

definition json :: "(response \<Rightarrow> thrown + 'a) \<Rightarrow> response \<Rightarrow> net \<Rightarrow> (thrown + 'a) \<times> net" where
  "json reading res n = (reading res, n\<lparr>parsed := parsed n + 1\<rparr>)"

subsection \<open>The web client (frontend/src/api/users.ts)\<close>

text \<open>The \<^verbatim>\<open>console.log\<close> calls of the source write to the console only and are left out.\<close>

definition web_getUsers :: "world \<Rightarrow> net \<Rightarrow> (thrown + user list) \<times> net" where
  "web_getUsers w n =
     (case fetch w \<lparr>http_method = GET, url = API_BASE, content_type = None, body = None\<rparr> n of
        (Inl e, n1) \<Rightarrow> (Inl e, n1)
      | (Inr res, n1) \<Rightarrow>
          if \<not> ok res then (Inl (Error ''Failed to fetch users''), n1)
          else json json_users res n1)"

definition web_createUser :: "world \<Rightarrow> userCreate \<Rightarrow> net \<Rightarrow> (thrown + user) \<times> net" where
  "web_createUser w u n =
     (case fetch w \<lparr>http_method = POST, url = API_BASE,
                    content_type = Some ''application/json'', body = Some u\<rparr> n of
        (Inl e, n1) \<Rightarrow> (Inl e, n1)
      | (Inr res, n1) \<Rightarrow>
          (case json json_user res n1 of
             (Inl e, n2) \<Rightarrow> (Inl e, n2)
           | (Inr data, n2) \<Rightarrow>
               if \<not> ok res then (Inl (Error ''Failed to create user''), n2)
               else (Inr data, n2)))"

definition web_updateUser :: "world \<Rightarrow> int \<Rightarrow> userCreate \<Rightarrow> net \<Rightarrow> (thrown + user) \<times> net" where
  "web_updateUser w i u n =
     (case fetch w \<lparr>http_method = PUT, url = API_BASE_id i,
                    content_type = Some ''application/json'', body = Some u\<rparr> n of
        (Inl e, n1) \<Rightarrow> (Inl e, n1)
      | (Inr res, n1) \<Rightarrow>
          if \<not> ok res then (Inl (Error ''Failed to update user''), n1)
          else json json_user res n1)"

definition web_deleteUser :: "world \<Rightarrow> int \<Rightarrow> net \<Rightarrow> (thrown + unit) \<times> net" where
  "web_deleteUser w i n =
     (case fetch w \<lparr>http_method = DELETE, url = API_BASE_id i, content_type = None, body = None\<rparr> n of
        (Inl e, n1) \<Rightarrow> (Inl e, n1)
      | (Inr res, n1) \<Rightarrow>
          if \<not> ok res then (Inl (Error ''Failed to delete user''), n1)
          else (Inr (), n1))"

subsection \<open>The mobile client (mobile/src/api/users.ts)\<close>

definition mobile_getUsers :: "world \<Rightarrow> net \<Rightarrow> (thrown + user list) \<times> net" where
  "mobile_getUsers w n =
     (case fetch w \<lparr>http_method = GET, url = API_BASE_slash, content_type = None, body = None\<rparr> n of
        (Inl e, n1) \<Rightarrow> (Inl e, n1)
      | (Inr res, n1) \<Rightarrow>
          if \<not> ok res then (Inl (Error ''Failed to fetch users''), n1)
          else json json_users res n1)"

definition mobile_createUser :: "world \<Rightarrow> userCreate \<Rightarrow> net \<Rightarrow> (thrown + user) \<times> net" where
  "mobile_createUser w u n =
     (case fetch w \<lparr>http_method = POST, url = API_BASE_slash,
                    content_type = Some ''application/json'', body = Some u\<rparr> n of
        (Inl e, n1) \<Rightarrow> (Inl e, n1)
      | (Inr res, n1) \<Rightarrow>
          if \<not> ok res then (Inl (Error ''Failed to create user''), n1)
          else json json_user res n1)"

definition mobile_updateUser :: "world \<Rightarrow> int \<Rightarrow> userCreate \<Rightarrow> net \<Rightarrow> (thrown + user) \<times> net" where
  "mobile_updateUser w i u n =
     (case fetch w \<lparr>http_method = PUT, url = API_BASE_id i,
                    content_type = Some ''application/json'', body = Some u\<rparr> n of
        (Inl e, n1) \<Rightarrow> (Inl e, n1)
      | (Inr res, n1) \<Rightarrow>
          if \<not> ok res then (Inl (Error ''Failed to update user''), n1)
          else json json_user res n1)"

definition mobile_deleteUser :: "world \<Rightarrow> int \<Rightarrow> net \<Rightarrow> (thrown + unit) \<times> net" where
  "mobile_deleteUser w i n =
     (case fetch w \<lparr>http_method = DELETE, url = API_BASE_id i, content_type = None, body = None\<rparr> n of
        (Inl e, n1) \<Rightarrow> (Inl e, n1)
      | (Inr res, n1) \<Rightarrow>
          if \<not> ok res then (Inl (Error ''Failed to delete user''), n1)
          else (Inr (), n1))"

subsection \<open>The client as the controllers import it\<close>

text \<open>
  \<^verbatim>\<open>import * as userApi from "./api/users"\<close>: the controller reaches the Resource
  Client through this namespace only. The four operations it uses act on the client's
  own state \<open>'n\<close> and settle to a thrown value or a result.
\<close>

record 'n userApi =
  getUsers :: "'n \<Rightarrow> (thrown + user list) \<times> 'n"
  createUser :: "userCreate \<Rightarrow> 'n \<Rightarrow> (thrown + user) \<times> 'n"
  updateUser :: "int \<Rightarrow> userCreate \<Rightarrow> 'n \<Rightarrow> (thrown + user) \<times> 'n"
  deleteUser :: "int \<Rightarrow> 'n \<Rightarrow> (thrown + unit) \<times> 'n"

definition web_api :: "world \<Rightarrow> net userApi" where
  "web_api w = \<lparr>getUsers = web_getUsers w, createUser = web_createUser w,
     updateUser = web_updateUser w, deleteUser = web_deleteUser w\<rparr>"

definition mobile_api :: "world \<Rightarrow> net userApi" where
  "mobile_api w = \<lparr>getUsers = mobile_getUsers w, createUser = mobile_createUser w,
     updateUser = mobile_updateUser w, deleteUser = mobile_deleteUser w\<rparr>"

section \<open>Operation Controller\<close>

subsection \<open>State writes and awaits\<close>

text \<open>
  What a handler does besides calling the Resource Client: it calls the setters of the
  five state cells and, on the mobile client, \<^verbatim>\<open>Alert.alert(title, message)\<close>. Each is
  recorded in order, so that a handler that wrote nothing is told from one that wrote
  and restored.
\<close>

datatype event =
    SetUsers "user list"
  | SetFormData userCreate
  | SetEditingId "int option"
  | SetLoading bool
  | SetError "string option"
  | Alert string string

record 'n config =
  st :: state
  events :: "event list"
  netw :: 'n

definition setUsers :: "user list \<Rightarrow> 'n config \<Rightarrow> 'n config" where
  "setUsers v c = c\<lparr>st := (st c)\<lparr>users := v\<rparr>, events := events c @ [SetUsers v]\<rparr>"

definition setFormData :: "userCreate \<Rightarrow> 'n config \<Rightarrow> 'n config" where
  "setFormData v c = c\<lparr>st := (st c)\<lparr>formData := v\<rparr>, events := events c @ [SetFormData v]\<rparr>"

definition setEditingId :: "int option \<Rightarrow> 'n config \<Rightarrow> 'n config" where
  "setEditingId v c = c\<lparr>st := (st c)\<lparr>editingId := v\<rparr>, events := events c @ [SetEditingId v]\<rparr>"

definition setLoading :: "bool \<Rightarrow> 'n config \<Rightarrow> 'n config" where
  "setLoading v c = c\<lparr>st := (st c)\<lparr>loading := v\<rparr>, events := events c @ [SetLoading v]\<rparr>"

definition setError :: "string option \<Rightarrow> 'n config \<Rightarrow> 'n config" where
  "setError v c = c\<lparr>st := (st c)\<lparr>error := v\<rparr>, events := events c @ [SetError v]\<rparr>"

definition alert :: "string \<Rightarrow> string \<Rightarrow> 'n config \<Rightarrow> 'n config" where
  "alert title msg c = c\<lparr>events := events c @ [Alert title msg]\<rparr>"

text \<open>\<^verbatim>\<open>await userApi.f(...)\<close>: the call runs on the client's state.\<close>

definition await :: "('n \<Rightarrow> 'r \<times> 'n) \<Rightarrow> 'n config \<Rightarrow> 'r \<times> 'n config" where
  "await f c = (case f (netw c) of (r, n) \<Rightarrow> (r, c\<lparr>netw := n\<rparr>))"

subsection \<open>The web controller (App, frontend/src/App.tsx)\<close>

text \<open>
  Each handler runs from its call to the settling of its promise. \<^verbatim>\<open>try\<close>,
  \<^verbatim>\<open>catch\<close> and \<^verbatim>\<open>finally\<close> are the two branches of the awaited result followed by
  \<^verbatim>\<open>setLoading(false)\<close>. \<^verbatim>\<open>e.preventDefault()\<close> and \<^verbatim>\<open>console.log\<close> touch neither
  the state nor the network and are left out. \<^verbatim>\<open>formData\<close> and \<^verbatim>\<open>editingId\<close> are
  the values the handler closed over, those of the state at the call. The guard
  \<^verbatim>\<open>if (!editingId) return\<close> of \<^verbatim>\<open>handleUpdate\<close> tests truthiness: it returns for
  \<^verbatim>\<open>null\<close> and for the number \<^verbatim>\<open>0\<close>.
\<close>

definition App_loadUsers :: "'n userApi \<Rightarrow> 'n config \<Rightarrow> 'n config" where
  "App_loadUsers api c =
     (case await (getUsers api) (setError None (setLoading True c)) of
        (Inr data, c1) \<Rightarrow> setLoading False (setUsers data c1)
      | (Inl err, c1) \<Rightarrow>
          setLoading False (setError (Some (error_message err ''Failed to load users'')) c1))"

definition App_handleCreate :: "'n userApi \<Rightarrow> 'n config \<Rightarrow> 'n config" where
  "App_handleCreate api c =
     (case await (createUser api (formData (st c))) (setError None (setLoading True c)) of
        (Inr created, c1) \<Rightarrow>
          setLoading False (App_loadUsers api (setFormData \<lparr>name = '''', email = ''''\<rparr> c1))
      | (Inl err, c1) \<Rightarrow>
          setLoading False (setError (Some (error_message err ''Failed to create user'')) c1))"

definition App_handleUpdate :: "'n userApi \<Rightarrow> 'n config \<Rightarrow> 'n config" where
  "App_handleUpdate api c =
     (case editingId (st c) of
        None \<Rightarrow> c
      | Some i \<Rightarrow>
          if i = 0 then c
          else
            (case await (updateUser api i (formData (st c))) (setError None (setLoading True c)) of
               (Inr updated, c1) \<Rightarrow>
                 setLoading False
                   (App_loadUsers api
                      (setFormData \<lparr>name = '''', email = ''''\<rparr> (setEditingId None c1)))
             | (Inl err, c1) \<Rightarrow>
                 setLoading False
                   (setError (Some (error_message err ''Failed to update user'')) c1)))"

definition App_handleDelete :: "'n userApi \<Rightarrow> int \<Rightarrow> 'n config \<Rightarrow> 'n config" where
  "App_handleDelete api i c =
     (case await (deleteUser api i) (setError None (setLoading True c)) of
        (Inr done, c1) \<Rightarrow> setLoading False (App_loadUsers api c1)
      | (Inl err, c1) \<Rightarrow>
          setLoading False (setError (Some (error_message err ''Failed to delete user'')) c1))"

definition App_startEdit :: "user \<Rightarrow> 'n config \<Rightarrow> 'n config" where
  "App_startEdit u c =
     setFormData \<lparr>name = name u, email = email u\<rparr> (setEditingId (Some (id' u)) c)"

definition App_cancelEdit :: "'n config \<Rightarrow> 'n config" where
  "App_cancelEdit c = setFormData \<lparr>name = '''', email = ''''\<rparr> (setEditingId None c)"

subsection \<open>The mobile controller (Index, mobile/app/index.tsx)\<close>

text \<open>
  The mobile handlers also raise \<^verbatim>\<open>Alert.alert\<close>. \<^verbatim>\<open>handleDelete\<close> first asks for
  confirmation; \<open>confirmed\<close> says whether the "Delete" button of that dialog was pressed
  (its \<^verbatim>\<open>onPress\<close> holds the operation), as against "Cancel".
\<close>

definition Index_loadUsers :: "'n userApi \<Rightarrow> 'n config \<Rightarrow> 'n config" where
  "Index_loadUsers api c =
     (case await (getUsers api) (setError None (setLoading True c)) of
        (Inr data, c1) \<Rightarrow> setLoading False (setUsers data c1)
      | (Inl err, c1) \<Rightarrow>
          (let message = error_message err ''Failed to load users''
           in setLoading False (alert ''Error'' message (setError (Some message) c1))))"

definition Index_handleCreate :: "'n userApi \<Rightarrow> 'n config \<Rightarrow> 'n config" where
  "Index_handleCreate api c =
     (if trim (name (formData (st c))) = [] \<or> trim (email (formData (st c))) = []
      then alert ''Validation Error'' ''Name and email are required'' c
      else
        case await (createUser api (formData (st c))) (setError None (setLoading True c)) of
          (Inr created, c1) \<Rightarrow>
            setLoading False (Index_loadUsers api (setFormData \<lparr>name = '''', email = ''''\<rparr> c1))
        | (Inl err, c1) \<Rightarrow>
            (let message = error_message err ''Failed to create user''
             in setLoading False (alert ''Error'' message (setError (Some message) c1))))"

definition Index_handleUpdate :: "'n userApi \<Rightarrow> 'n config \<Rightarrow> 'n config" where
  "Index_handleUpdate api c =
     (case editingId (st c) of
        None \<Rightarrow> c
      | Some i \<Rightarrow>
          if i = 0 then c
          else if trim (name (formData (st c))) = [] \<or> trim (email (formData (st c))) = []
          then alert ''Validation Error'' ''Name and email are required'' c
          else
            (case await (updateUser api i (formData (st c))) (setError None (setLoading True c)) of
               (Inr updated, c1) \<Rightarrow>
                 setLoading False
                   (Index_loadUsers api
                      (setFormData \<lparr>name = '''', email = ''''\<rparr> (setEditingId None c1)))
             | (Inl err, c1) \<Rightarrow>
                 (let message = error_message err ''Failed to update user''
                  in setLoading False (alert ''Error'' message (setError (Some message) c1)))))"

definition Index_handleDelete :: "'n userApi \<Rightarrow> int \<Rightarrow> bool \<Rightarrow> 'n config \<Rightarrow> 'n config" where
  "Index_handleDelete api i confirmed c =
     (let c0 = alert ''Delete User'' ''Are you sure you want to delete this user?'' c
      in if \<not> confirmed then c0
         else
           case await (deleteUser api i) (setError None (setLoading True c0)) of
             (Inr done, c1) \<Rightarrow> setLoading False (Index_loadUsers api c1)
           | (Inl err, c1) \<Rightarrow>
               (let message = error_message err ''Failed to delete user''
                in setLoading False (alert ''Error'' message (setError (Some message) c1))))"

definition Index_startEdit :: "user \<Rightarrow> 'n config \<Rightarrow> 'n config" where
  "Index_startEdit u c =
     setFormData \<lparr>name = name u, email = email u\<rparr> (setEditingId (Some (id' u)) c)"

definition Index_cancelEdit :: "'n config \<Rightarrow> 'n config" where
  "Index_cancelEdit c = setFormData \<lparr>name = '''', email = ''''\<rparr> (setEditingId None c)"

section \<open>Observations and sample inputs\<close>

text \<open>
  Two configurations agree when they hold the same five state cells and the same client
  state; the events differ between the front ends (the mobile one raises alerts).
\<close>

definition same_state :: "'n config \<Rightarrow> 'n config \<Rightarrow> bool" where
  "same_state a b = (st a = st b \<and> netw a = netw b)"

text \<open>The configuration with the Busy flag overwritten.\<close>

definition with_loading :: "bool \<Rightarrow> 'n config \<Rightarrow> 'n config" where
  "with_loading b c = c\<lparr>st := (st c)\<lparr>loading := b\<rparr>\<rparr>"

text \<open>The validation test of the mobile handlers, negated: both fields survive trimming.\<close>

definition filled :: "userCreate \<Rightarrow> bool" where
  "filled d = (\<not> (trim (name d) = [] \<or> trim (email d) = []))"

text \<open>
  What a reload leaves behind, given what \<^verbatim>\<open>getUsers\<close> settled to: the Busy flag is
  down; on success the cache is the returned list and the Error slot is empty, on
  failure the cache is the one before and the Error slot holds the message.
\<close>

definition reloaded :: "user list \<Rightarrow> thrown + user list \<Rightarrow> state \<Rightarrow> bool" where
  "reloaded before r s =
     (loading s = False \<and>
      (case r of
         Inr data \<Rightarrow> users s = data \<and> error s = None
       | Inl err \<Rightarrow>
           users s = before \<and> error s = Some (error_message err ''Failed to load users'')))"

text \<open>
  A run of a front end is a sequence of calls of the six functions its component
  defines, each taken to completion. \<open>HandleDelete\<close> carries the id and the answer given
  to the confirmation dialog of the mobile front end (the web front end shows none).
\<close>

datatype call =
    LoadUsers
  | HandleCreate
  | HandleUpdate
  | HandleDelete int bool
  | StartEdit user
  | CancelEdit

fun App_call :: "'n userApi \<Rightarrow> call \<Rightarrow> 'n config \<Rightarrow> 'n config" where
  "App_call api LoadUsers c = App_loadUsers api c"
| "App_call api HandleCreate c = App_handleCreate api c"
| "App_call api HandleUpdate c = App_handleUpdate api c"
| "App_call api (HandleDelete i answer) c = App_handleDelete api i c"
| "App_call api (StartEdit u) c = App_startEdit u c"
| "App_call api CancelEdit c = App_cancelEdit c"

fun Index_call :: "'n userApi \<Rightarrow> call \<Rightarrow> 'n config \<Rightarrow> 'n config" where
  "Index_call api LoadUsers c = Index_loadUsers api c"
| "Index_call api HandleCreate c = Index_handleCreate api c"
| "Index_call api HandleUpdate c = Index_handleUpdate api c"
| "Index_call api (HandleDelete i answer) c = Index_handleDelete api i answer c"
| "Index_call api (StartEdit u) c = Index_startEdit u c"
| "Index_call api CancelEdit c = Index_cancelEdit c"

fun App_run :: "'n userApi \<Rightarrow> call list \<Rightarrow> 'n config \<Rightarrow> 'n config" where
  "App_run api [] c = c"
| "App_run api (x # xs) c = App_run api xs (App_call api x c)"

fun Index_run :: "'n userApi \<Rightarrow> call list \<Rightarrow> 'n config \<Rightarrow> 'n config" where
  "Index_run api [] c = c"
| "Index_run api (x # xs) c = Index_run api xs (Index_call api x c)"

text \<open>
  The calls on which the mobile handlers do not stop before the request: a submit whose
  Draft passes validation (or an update without target, which stops in both front ends),
  and a delete whose confirmation is given. \<open>unrefused\<close> checks this at every call of a
  run, on the states the web front end goes through.
\<close>

fun passes :: "call \<Rightarrow> state \<Rightarrow> bool" where
  "passes HandleCreate s = filled (formData s)"
| "passes HandleUpdate s = (filled (formData s) \<or> editingId s = None \<or> editingId s = Some 0)"
| "passes (HandleDelete i answer) s = answer"
| "passes LoadUsers s = True"
| "passes (StartEdit u) s = True"
| "passes CancelEdit s = True"

fun unrefused :: "'n userApi \<Rightarrow> call list \<Rightarrow> 'n config \<Rightarrow> bool" where
  "unrefused api [] c = True"
| "unrefused api (x # xs) c = (passes x (st c) \<and> unrefused api xs (App_call api x c))"

text \<open>Sample records, servers and configurations.\<close>

definition ada :: user where
  "ada = \<lparr>name = ''Ada'', email = ''ada@x.com'', id' = 1\<rparr>"

definition server_ok :: world where
  "server_ok reqs = Inr \<lparr>status = 200, json_users = Inr [ada], json_user = Inr ada\<rparr>"

definition server_error :: world where
  "server_error reqs =
     Inr \<lparr>status = 500,
         json_users = Inl (Error ''Unexpected token I in JSON at position 0''),
         json_user = Inl (Error ''Unexpected token I in JSON at position 0'')\<rparr>"

text \<open>A server that accepts every mutation and fails every listing.\<close>

definition server_no_list :: world where
  "server_no_list reqs =
     (case rev reqs of
        [] \<Rightarrow> Inl (Error ''Failed to fetch'')
      | q # earlier \<Rightarrow>
          if http_method q = GET
          then Inr \<lparr>status = 503, json_users = Inl (Error ''Unexpected end of JSON input''),
                    json_user = Inl (Error ''Unexpected end of JSON input'')\<rparr>
          else Inr \<lparr>status = 201, json_users = Inr [ada], json_user = Inr ada\<rparr>)"

definition start :: "net config" where
  "start = \<lparr>st = initial, events = [], netw = \<lparr>sent = [], parsed = 0\<rparr>\<rparr>"

definition blank_name :: "net config" where
  "blank_name = start\<lparr>st := initial\<lparr>formData := \<lparr>name = '''', email = ''x@x.com''\<rparr>\<rparr>\<rparr>"

definition typed :: "net config" where
  "typed = start\<lparr>st := initial\<lparr>formData := \<lparr>name = ''Ada'', email = ''ada@x.com''\<rparr>\<rparr>\<rparr>"

definition editing :: "net config" where
  "editing = start\<lparr>st := initial\<lparr>users := [ada], editingId := Some 1,
     formData := \<lparr>name = ''Ada L'', email = ''ada@x.com''\<rparr>\<rparr>\<rparr>"

definition editing_blank :: "net config" where
  "editing_blank = start\<lparr>st := initial\<lparr>users := [ada], editingId := Some 1,
     formData := \<lparr>name = ''  '', email = ''ada@x.com''\<rparr>\<rparr>\<rparr>"

definition busy :: "net config" where
  "busy = start\<lparr>st := initial\<lparr>loading := True\<rparr>\<rparr>"

section \<open>Auxiliary facts\<close>

lemmas setters = setUsers_def setFormData_def setEditingId_def setLoading_def setError_def
  alert_def await_def

lemmas web_client = web_api_def web_getUsers_def web_createUser_def web_updateUser_def
  web_deleteUser_def fetch_def json_def ok_def

lemmas mobile_client = mobile_api_def mobile_getUsers_def mobile_createUser_def
  mobile_updateUser_def mobile_deleteUser_def fetch_def json_def ok_def

lemmas samples = ada_def server_ok_def server_error_def server_no_list_def start_def blank_name_def typed_def
  editing_def editing_blank_def busy_def initial_def

lemma trim_samples:
  "trim '''' = []" "trim ''  '' = []" "trim ''Ada'' = ''Ada''" "trim ''Ada L'' = ''Ada L''"
  "trim ''ada@x.com'' = ''ada@x.com''" "trim ''x@x.com'' = ''x@x.com''"
  by (simp_all add: trim_def is_ws_def)

text \<open>\<^verbatim>\<open>loadUsers\<close> in closed form, by what \<^verbatim>\<open>getUsers\<close> settles to.\<close>

lemma App_loadUsers_Inr:
  "getUsers api (netw c) = (Inr data, n) \<Longrightarrow>
   App_loadUsers api c =
     c\<lparr>st := (st c)\<lparr>users := data, loading := False, error := None\<rparr>,
       events := events c @ [SetLoading True, SetError None, SetUsers data, SetLoading False],
       netw := n\<rparr>"
  by (simp add: App_loadUsers_def setters)

lemma App_loadUsers_Inl:
  "getUsers api (netw c) = (Inl err, n) \<Longrightarrow>
   App_loadUsers api c =
     c\<lparr>st := (st c)\<lparr>loading := False,
                     error := Some (error_message err ''Failed to load users'')\<rparr>,
       events := events c @ [SetLoading True, SetError None,
                  SetError (Some (error_message err ''Failed to load users'')),
                  SetLoading False],
       netw := n\<rparr>"
  by (simp add: App_loadUsers_def setters)

lemma Index_loadUsers_Inr:
  "getUsers api (netw c) = (Inr data, n) \<Longrightarrow>
   Index_loadUsers api c =
     c\<lparr>st := (st c)\<lparr>users := data, loading := False, error := None\<rparr>,
       events := events c @ [SetLoading True, SetError None, SetUsers data, SetLoading False],
       netw := n\<rparr>"
  by (simp add: Index_loadUsers_def setters Let_def)

lemma Index_loadUsers_Inl:
  "getUsers api (netw c) = (Inl err, n) \<Longrightarrow>
   Index_loadUsers api c =
     c\<lparr>st := (st c)\<lparr>loading := False,
                     error := Some (error_message err ''Failed to load users'')\<rparr>,
       events := events c @ [SetLoading True, SetError None,
                  SetError (Some (error_message err ''Failed to load users'')),
                  Alert ''Error'' (error_message err ''Failed to load users''),
                  SetLoading False],
       netw := n\<rparr>"
  by (simp add: Index_loadUsers_def setters Let_def)

lemma App_loadUsers_reloaded:
  "getUsers api (netw c) = (r, n) \<Longrightarrow>
   reloaded (users (st c)) r (st (App_loadUsers api c)) \<and> netw (App_loadUsers api c) = n \<and>
   formData (st (App_loadUsers api c)) = formData (st c) \<and>
   editingId (st (App_loadUsers api c)) = editingId (st c)"
  by (cases r) (simp_all add: App_loadUsers_Inl App_loadUsers_Inr reloaded_def)

lemma Index_loadUsers_reloaded:
  "getUsers api (netw c) = (r, n) \<Longrightarrow>
   reloaded (users (st c)) r (st (Index_loadUsers api c)) \<and> netw (Index_loadUsers api c) = n \<and>
   formData (st (Index_loadUsers api c)) = formData (st c) \<and>
   editingId (st (Index_loadUsers api c)) = editingId (st c)"
  by (cases r) (simp_all add: Index_loadUsers_Inl Index_loadUsers_Inr reloaded_def)

lemma loadUsers_same_state:
  "same_state c c' \<Longrightarrow> same_state (App_loadUsers api c) (Index_loadUsers api c')"
  by (simp add: same_state_def App_loadUsers_def Index_loadUsers_def setters Let_def
      split: prod.splits sum.splits)

section \<open>Edit mode\<close>

text \<open>
  C9. \<^verbatim>\<open>startEdit(record)\<close> sets EditTarget to the record's id and Draft to a copy of
  its name and email; \<^verbatim>\<open>cancelEdit\<close> sets EditTarget to None and Draft to two empty
  strings, whatever the state; neither calls the Resource Client (the client state, and
  with it the list of requests sent, is the same) nor changes the Collection Cache. Both
  front ends.
\<close>

theorem startEdit_cancelEdit:
  "editingId (st (App_startEdit u c)) = Some (id' u) \<and>
   formData (st (App_startEdit u c)) = \<lparr>name = name u, email = email u\<rparr> \<and>
   users (st (App_startEdit u c)) = users (st c) \<and>
   netw (App_startEdit u c) = netw c \<and>
   editingId (st (App_cancelEdit c)) = None \<and>
   formData (st (App_cancelEdit c)) = \<lparr>name = '''', email = ''''\<rparr> \<and>
   users (st (App_cancelEdit c)) = users (st c) \<and>
   netw (App_cancelEdit c) = netw c \<and>
   Index_startEdit u c = App_startEdit u c \<and>
   Index_cancelEdit c = App_cancelEdit c"
  by (simp add: App_startEdit_def App_cancelEdit_def Index_startEdit_def Index_cancelEdit_def
      setters)

text \<open>
  C10. When EditTarget is None or the number 0, the update handler returns at once: the
  whole configuration (five state cells, events, client state) is the one before, for
  any Resource Client, so no request is issued. Both front ends.
\<close>

theorem handleUpdate_without_target:
  assumes "editingId (st c) = None \<or> editingId (st c) = Some 0"
  shows "App_handleUpdate api c = c \<and> Index_handleUpdate api c = c"
  using assms by (auto simp: App_handleUpdate_def Index_handleUpdate_def)

theorem handleUpdate_without_target_witness:
  "editingId (st (editing\<lparr>st := (st editing)\<lparr>editingId := Some 0\<rparr>\<rparr>)) = Some 0 \<and>
   App_handleUpdate (web_api server_ok) (editing\<lparr>st := (st editing)\<lparr>editingId := Some 0\<rparr>\<rparr>)
     = editing\<lparr>st := (st editing)\<lparr>editingId := Some 0\<rparr>\<rparr> \<and>
   sent (netw (Index_handleUpdate (mobile_api server_ok)
     (editing\<lparr>st := (st editing)\<lparr>editingId := Some 0\<rparr>\<rparr>))) = []"
proof -
  let ?c = "editing\<lparr>st := (st editing)\<lparr>editingId := Some 0\<rparr>\<rparr>"
  have h: "editingId (st ?c) = None \<or> editingId (st ?c) = Some 0"
    by simp
  show ?thesis
    using handleUpdate_without_target [OF h, of "web_api server_ok"]
      handleUpdate_without_target [OF h, of "mobile_api server_ok"]
    by (simp add: samples)
qed

section \<open>Delete\<close>

text \<open>
  C8. A delete, whatever the id (the current EditTarget included) and however the
  request and the chained reload end, leaves EditTarget and Draft as they were. On the
  mobile front end this holds whether the confirmation is given or not.
\<close>

theorem handleDelete_keeps_edit_mode:
  "editingId (st (App_handleDelete api i c)) = editingId (st c) \<and>
   formData (st (App_handleDelete api i c)) = formData (st c) \<and>
   editingId (st (Index_handleDelete api i confirmed c)) = editingId (st c) \<and>
   formData (st (Index_handleDelete api i confirmed c)) = formData (st c)"
proof -
  obtain r n where d: "deleteUser api i (netw c) = (r, n)"
    by (cases "deleteUser api i (netw c)")
  obtain r' n' where g: "getUsers api n = (r', n')"
    by (cases "getUsers api n")
  have web: "editingId (st (App_handleDelete api i c)) = editingId (st c) \<and>
      formData (st (App_handleDelete api i c)) = formData (st c)"
  proof (cases r)
    case (Inl err)
    with d show ?thesis by (simp add: App_handleDelete_def setters)
  next
    case (Inr deleted)
    with d g show ?thesis
      using App_loadUsers_reloaded [of api "c\<lparr>st := (st c)\<lparr>loading := True, error := None\<rparr>,
          events := events c @ [SetLoading True, SetError None], netw := n\<rparr>" r' n']
      by (simp add: App_handleDelete_def setters)
  qed
  have mobile: "editingId (st (Index_handleDelete api i confirmed c)) = editingId (st c) \<and>
      formData (st (Index_handleDelete api i confirmed c)) = formData (st c)"
  proof (cases "confirmed")
    case False
    then show ?thesis by (simp add: Index_handleDelete_def setters Let_def)
  next
    case True
    show ?thesis
    proof (cases r)
      case (Inl err)
      with d True show ?thesis by (simp add: Index_handleDelete_def setters Let_def)
    next
      case (Inr deleted)
      with d g True show ?thesis
        using Index_loadUsers_reloaded [of api
            "c\<lparr>st := (st c)\<lparr>loading := True, error := None\<rparr>,
              events := events c @ [Alert ''Delete User''
                  ''Are you sure you want to delete this user?'', SetLoading True,
                  SetError None], netw := n\<rparr>" r' n']
        by (simp add: Index_handleDelete_def setters Let_def)
    qed
  qed
  from web mobile show ?thesis by simp
qed

section \<open>Load\<close>

text \<open>
  C7. For every \<^verbatim>\<open>loadUsers\<close>, whatever \<^verbatim>\<open>getUsers\<close> settles to: on success the
  Collection Cache is exactly the returned list; on failure the Collection Cache is the one
  before and the Error slot holds the failure message; either way Busy ends false. Both
  front ends.
\<close>

theorem loadUsers_outcome:
  assumes "getUsers api (netw c) = (r, n)"
  shows "loading (st (App_loadUsers api c)) = False \<and>
         (\<forall>data. r = Inr data \<longrightarrow> users (st (App_loadUsers api c)) = data) \<and>
         (\<forall>err. r = Inl err \<longrightarrow>
            users (st (App_loadUsers api c)) = users (st c) \<and>
            error (st (App_loadUsers api c)) = Some (error_message err ''Failed to load users'')) \<and>
         loading (st (Index_loadUsers api c)) = False \<and>
         (\<forall>data. r = Inr data \<longrightarrow> users (st (Index_loadUsers api c)) = data) \<and>
         (\<forall>err. r = Inl err \<longrightarrow>
            users (st (Index_loadUsers api c)) = users (st c) \<and>
            error (st (Index_loadUsers api c)) = Some (error_message err ''Failed to load users''))"
proof (cases r)
  case (Inl err)
  with assms show ?thesis
    by (simp add: App_loadUsers_Inl Index_loadUsers_Inl)
next
  case (Inr data)
  with assms show ?thesis
    by (simp add: App_loadUsers_Inr Index_loadUsers_Inr)
qed

theorem loadUsers_outcome_witness:
  "getUsers (web_api server_ok) (netw start) =
     (Inr [ada], \<lparr>sent = [\<lparr>http_method = GET, url = API_BASE, content_type = None,
                           body = None\<rparr>], parsed = 1\<rparr>) \<and>
   users (st (App_loadUsers (web_api server_ok) start)) = [ada] \<and>
   loading (st (App_loadUsers (web_api server_ok) start)) = False \<and>
   getUsers (mobile_api server_error) (netw start) =
     (Inl (Error ''Failed to fetch users''),
      \<lparr>sent = [\<lparr>http_method = GET, url = API_BASE_slash, content_type = None,
                body = None\<rparr>], parsed = 0\<rparr>) \<and>
   users (st (Index_loadUsers (mobile_api server_error) start)) = [] \<and>
   error (st (Index_loadUsers (mobile_api server_error) start)) = Some ''Failed to fetch users'' \<and>
   loading (st (Index_loadUsers (mobile_api server_error) start)) = False"
proof -
  have ok: "getUsers (web_api server_ok) (netw start) =
     (Inr [ada], \<lparr>sent = [\<lparr>http_method = GET, url = API_BASE, content_type = None,
                           body = None\<rparr>], parsed = 1\<rparr>)"
    by (simp add: web_client samples)
  have ko: "getUsers (mobile_api server_error) (netw start) =
     (Inl (Error ''Failed to fetch users''),
      \<lparr>sent = [\<lparr>http_method = GET, url = API_BASE_slash, content_type = None,
                body = None\<rparr>], parsed = 0\<rparr>)"
    by (simp add: mobile_client samples)
  have users0: "users (st start) = []"
    by (simp add: samples)
  show ?thesis
    using ok ko users0 loadUsers_outcome [OF ok] loadUsers_outcome [OF ko]
    by (simp add: error_message_def)
qed

section \<open>Submit\<close>

lemma App_handleCreate_failure:
  assumes "createUser api (formData (st c)) (netw c) = (Inl err, n)"
  shows "formData (st (App_handleCreate api c)) = formData (st c) \<and>
         editingId (st (App_handleCreate api c)) = editingId (st c) \<and>
         error (st (App_handleCreate api c)) = Some (error_message err ''Failed to create user'')"
  using assms by (simp add: App_handleCreate_def setters)

lemma App_handleUpdate_failure:
  assumes "editingId (st c) = Some i" and "i \<noteq> 0"
    and "updateUser api i (formData (st c)) (netw c) = (Inl err, n)"
  shows "formData (st (App_handleUpdate api c)) = formData (st c) \<and>
         editingId (st (App_handleUpdate api c)) = editingId (st c) \<and>
         error (st (App_handleUpdate api c)) = Some (error_message err ''Failed to update user'')"
  using assms by (simp add: App_handleUpdate_def setters)

lemma Index_handleCreate_failure:
  assumes "filled (formData (st c))"
    and "createUser api (formData (st c)) (netw c) = (Inl err, n)"
  shows "formData (st (Index_handleCreate api c)) = formData (st c) \<and>
         editingId (st (Index_handleCreate api c)) = editingId (st c) \<and>
         error (st (Index_handleCreate api c)) = Some (error_message err ''Failed to create user'')"
  using assms by (simp add: Index_handleCreate_def filled_def setters Let_def)

lemma Index_handleUpdate_failure:
  assumes "filled (formData (st c))" and "editingId (st c) = Some i" and "i \<noteq> 0"
    and "updateUser api i (formData (st c)) (netw c) = (Inl err, n)"
  shows "formData (st (Index_handleUpdate api c)) = formData (st c) \<and>
         editingId (st (Index_handleUpdate api c)) = editingId (st c) \<and>
         error (st (Index_handleUpdate api c)) = Some (error_message err ''Failed to update user'')"
  using assms by (simp add: Index_handleUpdate_def filled_def setters Let_def)

text \<open>
  C6. A submit whose request fails (\<^verbatim>\<open>createUser\<close> in create mode, \<^verbatim>\<open>updateUser\<close> in
  update mode settles to a thrown value) ends with Draft and EditTarget exactly as they
  were before the submit, and with the Error slot set to the failure message. Both front
  ends; on the mobile one a request is sent only for a Draft that passes validation.
\<close>

theorem failed_submit_keeps_draft:
  "(createUser api (formData (st c)) (netw c) = (Inl err, n) \<longrightarrow>
      formData (st (App_handleCreate api c)) = formData (st c) \<and>
      editingId (st (App_handleCreate api c)) = editingId (st c) \<and>
      error (st (App_handleCreate api c)) = Some (error_message err ''Failed to create user'')) \<and>
   (editingId (st c) = Some i \<and> i \<noteq> 0 \<and>
    updateUser api i (formData (st c)) (netw c) = (Inl err, n) \<longrightarrow>
      formData (st (App_handleUpdate api c)) = formData (st c) \<and>
      editingId (st (App_handleUpdate api c)) = editingId (st c) \<and>
      error (st (App_handleUpdate api c)) = Some (error_message err ''Failed to update user'')) \<and>
   (filled (formData (st c)) \<and>
    createUser api (formData (st c)) (netw c) = (Inl err, n) \<longrightarrow>
      formData (st (Index_handleCreate api c)) = formData (st c) \<and>
      editingId (st (Index_handleCreate api c)) = editingId (st c) \<and>
      error (st (Index_handleCreate api c)) = Some (error_message err ''Failed to create user'')) \<and>
   (filled (formData (st c)) \<and> editingId (st c) = Some i \<and> i \<noteq> 0 \<and>
    updateUser api i (formData (st c)) (netw c) = (Inl err, n) \<longrightarrow>
      formData (st (Index_handleUpdate api c)) = formData (st c) \<and>
      editingId (st (Index_handleUpdate api c)) = editingId (st c) \<and>
      error (st (Index_handleUpdate api c)) = Some (error_message err ''Failed to update user''))"
  using App_handleCreate_failure [of api c err n] App_handleUpdate_failure [of c i api err n]
    Index_handleCreate_failure [of c api err n] Index_handleUpdate_failure [of c i api err n]
  by blast

theorem failed_submit_keeps_draft_witness:
  "fst (createUser (web_api server_error) (formData (st typed)) (netw typed)) =
     Inl (Error ''Unexpected token I in JSON at position 0'') \<and>
   formData (st (App_handleCreate (web_api server_error) typed)) =
     \<lparr>name = ''Ada'', email = ''ada@x.com''\<rparr> \<and>
   editingId (st (App_handleCreate (web_api server_error) typed)) = None \<and>
   error (st (App_handleCreate (web_api server_error) typed)) =
     Some ''Unexpected token I in JSON at position 0'' \<and>
   filled (formData (st editing)) \<and> editingId (st editing) = Some 1 \<and>
   fst (updateUser (mobile_api server_error) 1 (formData (st editing)) (netw editing)) =
     Inl (Error ''Failed to update user'') \<and>
   formData (st (Index_handleUpdate (mobile_api server_error) editing)) =
     \<lparr>name = ''Ada L'', email = ''ada@x.com''\<rparr> \<and>
   editingId (st (Index_handleUpdate (mobile_api server_error) editing)) = Some 1 \<and>
   error (st (Index_handleUpdate (mobile_api server_error) editing)) =
     Some ''Failed to update user''"
proof -
  obtain n where create: "createUser (web_api server_error) (formData (st typed)) (netw typed) =
      (Inl (Error ''Unexpected token I in JSON at position 0''), n)"
    by (simp add: web_client samples)
  obtain n' where update:
    "updateUser (mobile_api server_error) 1 (formData (st editing)) (netw editing) =
      (Inl (Error ''Failed to update user''), n')"
    by (simp add: mobile_client samples)
  have target: "editingId (st editing) = Some 1" "(1::int) \<noteq> 0"
    by (simp_all add: samples)
  have valid: "filled (formData (st editing))"
    by (simp add: filled_def samples trim_samples)
  have draft: "formData (st typed) = \<lparr>name = ''Ada'', email = ''ada@x.com''\<rparr>"
    "editingId (st typed) = None"
    "formData (st editing) = \<lparr>name = ''Ada L'', email = ''ada@x.com''\<rparr>"
    by (simp_all add: samples)
  from failed_submit_keeps_draft
    [of "web_api server_error" typed "Error ''Unexpected token I in JSON at position 0''" n 1]
    create
  have web: "formData (st (App_handleCreate (web_api server_error) typed)) = formData (st typed) \<and>
      editingId (st (App_handleCreate (web_api server_error) typed)) = editingId (st typed) \<and>
      error (st (App_handleCreate (web_api server_error) typed)) =
        Some (error_message (Error ''Unexpected token I in JSON at position 0'')
          ''Failed to create user'')"
    by blast
  from failed_submit_keeps_draft
    [of "mobile_api server_error" editing "Error ''Failed to update user''" n' 1]
    update target valid
  have mobile: "formData (st (Index_handleUpdate (mobile_api server_error) editing)) =
        formData (st editing) \<and>
      editingId (st (Index_handleUpdate (mobile_api server_error) editing)) =
        editingId (st editing) \<and>
      error (st (Index_handleUpdate (mobile_api server_error) editing)) =
        Some (error_message (Error ''Failed to update user'') ''Failed to update user'')"
    by blast
  from web mobile create update target valid draft show ?thesis
    by (simp add: error_message_def)
qed

lemma App_handleCreate_success:
  assumes "createUser api (formData (st c)) (netw c) = (Inr u, n1)"
    and "getUsers api n1 = (r, n2)"
  shows "reloaded (users (st c)) r (st (App_handleCreate api c)) \<and>
         netw (App_handleCreate api c) = n2 \<and>
         formData (st (App_handleCreate api c)) = \<lparr>name = '''', email = ''''\<rparr> \<and>
         editingId (st (App_handleCreate api c)) = editingId (st c)"
  using assms
  by (cases r) (simp_all add: App_handleCreate_def App_loadUsers_def setters reloaded_def)

lemma App_handleUpdate_success:
  assumes "editingId (st c) = Some i" and "i \<noteq> 0"
    and "updateUser api i (formData (st c)) (netw c) = (Inr u, n1)"
    and "getUsers api n1 = (r, n2)"
  shows "reloaded (users (st c)) r (st (App_handleUpdate api c)) \<and>
         netw (App_handleUpdate api c) = n2 \<and>
         formData (st (App_handleUpdate api c)) = \<lparr>name = '''', email = ''''\<rparr> \<and>
         editingId (st (App_handleUpdate api c)) = None"
  using assms
  by (cases r) (simp_all add: App_handleUpdate_def App_loadUsers_def setters reloaded_def)

lemma App_handleDelete_success:
  assumes "deleteUser api i (netw c) = (Inr x, n1)"
    and "getUsers api n1 = (r, n2)"
  shows "reloaded (users (st c)) r (st (App_handleDelete api i c)) \<and>
         netw (App_handleDelete api i c) = n2 \<and>
         formData (st (App_handleDelete api i c)) = formData (st c) \<and>
         editingId (st (App_handleDelete api i c)) = editingId (st c)"
  using assms
  by (cases r) (simp_all add: App_handleDelete_def App_loadUsers_def setters reloaded_def)

lemma Index_handleCreate_success:
  assumes "filled (formData (st c))"
    and "createUser api (formData (st c)) (netw c) = (Inr u, n1)"
    and "getUsers api n1 = (r, n2)"
  shows "reloaded (users (st c)) r (st (Index_handleCreate api c)) \<and>
         netw (Index_handleCreate api c) = n2 \<and>
         formData (st (Index_handleCreate api c)) = \<lparr>name = '''', email = ''''\<rparr> \<and>
         editingId (st (Index_handleCreate api c)) = editingId (st c)"
  using assms
  by (cases r)
    (simp_all add: Index_handleCreate_def Index_loadUsers_def filled_def setters reloaded_def
      Let_def)

lemma Index_handleUpdate_success:
  assumes "filled (formData (st c))" and "editingId (st c) = Some i" and "i \<noteq> 0"
    and "updateUser api i (formData (st c)) (netw c) = (Inr u, n1)"
    and "getUsers api n1 = (r, n2)"
  shows "reloaded (users (st c)) r (st (Index_handleUpdate api c)) \<and>
         netw (Index_handleUpdate api c) = n2 \<and>
         formData (st (Index_handleUpdate api c)) = \<lparr>name = '''', email = ''''\<rparr> \<and>
         editingId (st (Index_handleUpdate api c)) = None"
  using assms
  by (cases r)
    (simp_all add: Index_handleUpdate_def Index_loadUsers_def filled_def setters reloaded_def
      Let_def)

lemma Index_handleDelete_success:
  assumes "deleteUser api i (netw c) = (Inr x, n1)"
    and "getUsers api n1 = (r, n2)"
  shows "reloaded (users (st c)) r (st (Index_handleDelete api i True c)) \<and>
         netw (Index_handleDelete api i True c) = n2 \<and>
         formData (st (Index_handleDelete api i True c)) = formData (st c) \<and>
         editingId (st (Index_handleDelete api i True c)) = editingId (st c)"
  using assms
  by (cases r)
    (simp_all add: Index_handleDelete_def Index_loadUsers_def setters reloaded_def Let_def)

text \<open>
  C4. When the mutation succeeds (\<^verbatim>\<open>createUser\<close>, \<^verbatim>\<open>updateUser\<close> or \<^verbatim>\<open>deleteUser\<close>
  settles to a result, leaving the client in \<open>n1\<close>), the handler calls \<^verbatim>\<open>getUsers\<close> next,
  on \<open>n1\<close>, inside the same handler run, and ends in the client state \<open>n2\<close> that call
  leaves. If the reload succeeds the Collection Cache is exactly its result. If it fails,
  the Collection Cache is the one before the operation, the Error slot holds the reload's
  failure message, and the resets already made stand: Draft is empty after create and
  update, EditTarget is None after update. Both front ends (the mobile delete once
  confirmed, the mobile submit on a Draft that passes validation).
\<close>

theorem mutation_chains_reload:
  assumes "getUsers api n1 = (r, n2)"
  shows
    "(createUser api (formData (st c)) (netw c) = (Inr u, n1) \<longrightarrow>
        reloaded (users (st c)) r (st (App_handleCreate api c)) \<and>
        netw (App_handleCreate api c) = n2 \<and>
        formData (st (App_handleCreate api c)) = \<lparr>name = '''', email = ''''\<rparr> \<and>
        editingId (st (App_handleCreate api c)) = editingId (st c)) \<and>
     (editingId (st c) = Some i \<and> i \<noteq> 0 \<and>
      updateUser api i (formData (st c)) (netw c) = (Inr u, n1) \<longrightarrow>
        reloaded (users (st c)) r (st (App_handleUpdate api c)) \<and>
        netw (App_handleUpdate api c) = n2 \<and>
        formData (st (App_handleUpdate api c)) = \<lparr>name = '''', email = ''''\<rparr> \<and>
        editingId (st (App_handleUpdate api c)) = None) \<and>
     (deleteUser api j (netw c) = (Inr x, n1) \<longrightarrow>
        reloaded (users (st c)) r (st (App_handleDelete api j c)) \<and>
        netw (App_handleDelete api j c) = n2 \<and>
        formData (st (App_handleDelete api j c)) = formData (st c) \<and>
        editingId (st (App_handleDelete api j c)) = editingId (st c)) \<and>
     (filled (formData (st c)) \<and>
      createUser api (formData (st c)) (netw c) = (Inr u, n1) \<longrightarrow>
        reloaded (users (st c)) r (st (Index_handleCreate api c)) \<and>
        netw (Index_handleCreate api c) = n2 \<and>
        formData (st (Index_handleCreate api c)) = \<lparr>name = '''', email = ''''\<rparr> \<and>
        editingId (st (Index_handleCreate api c)) = editingId (st c)) \<and>
     (filled (formData (st c)) \<and> editingId (st c) = Some i \<and> i \<noteq> 0 \<and>
      updateUser api i (formData (st c)) (netw c) = (Inr u, n1) \<longrightarrow>
        reloaded (users (st c)) r (st (Index_handleUpdate api c)) \<and>
        netw (Index_handleUpdate api c) = n2 \<and>
        formData (st (Index_handleUpdate api c)) = \<lparr>name = '''', email = ''''\<rparr> \<and>
        editingId (st (Index_handleUpdate api c)) = None) \<and>
     (deleteUser api j (netw c) = (Inr x, n1) \<longrightarrow>
        reloaded (users (st c)) r (st (Index_handleDelete api j True c)) \<and>
        netw (Index_handleDelete api j True c) = n2 \<and>
        formData (st (Index_handleDelete api j True c)) = formData (st c) \<and>
        editingId (st (Index_handleDelete api j True c)) = editingId (st c))"
  using assms App_handleCreate_success [of api c u n1 r n2]
    App_handleUpdate_success [of c i api u n1 r n2]
    App_handleDelete_success [of api j c x n1 r n2]
    Index_handleCreate_success [of c api u n1 r n2]
    Index_handleUpdate_success [of c i api u n1 r n2]
    Index_handleDelete_success [of api j c x n1 r n2]
  by blast

theorem mutation_chains_reload_witness:
  "fst (createUser (web_api server_no_list) (formData (st typed)) (netw typed)) = Inr ada \<and>
   users (st (App_handleCreate (web_api server_no_list) typed)) = [] \<and>
   error (st (App_handleCreate (web_api server_no_list) typed)) = Some ''Failed to fetch users'' \<and>
   formData (st (App_handleCreate (web_api server_no_list) typed)) = \<lparr>name = '''', email = ''''\<rparr> \<and>
   map http_method (sent (netw (App_handleCreate (web_api server_no_list) typed))) = [POST, GET] \<and>
   filled (formData (st editing)) \<and> editingId (st editing) = Some 1 \<and>
   fst (updateUser (mobile_api server_ok) 1 (formData (st editing)) (netw editing)) = Inr ada \<and>
   users (st (Index_handleUpdate (mobile_api server_ok) editing)) = [ada] \<and>
   error (st (Index_handleUpdate (mobile_api server_ok) editing)) = None \<and>
   formData (st (Index_handleUpdate (mobile_api server_ok) editing)) = \<lparr>name = '''', email = ''''\<rparr> \<and>
   editingId (st (Index_handleUpdate (mobile_api server_ok) editing)) = None \<and>
   map http_method (sent (netw (Index_handleUpdate (mobile_api server_ok) editing))) = [PUT, GET]"
proof -
  let ?post = "\<lparr>http_method = POST, url = API_BASE, content_type = Some ''application/json'',
      body = Some \<lparr>name = ''Ada'', email = ''ada@x.com''\<rparr>\<rparr>"
  let ?get = "\<lparr>http_method = GET, url = API_BASE, content_type = None, body = None\<rparr>"
  let ?put = "\<lparr>http_method = PUT, url = API_BASE_id 1, content_type = Some ''application/json'',
      body = Some \<lparr>name = ''Ada L'', email = ''ada@x.com''\<rparr>\<rparr>"
  let ?get' = "\<lparr>http_method = GET, url = API_BASE_slash, content_type = None, body = None\<rparr>"
  have create: "createUser (web_api server_no_list) (formData (st typed)) (netw typed) =
      (Inr ada, \<lparr>sent = [?post], parsed = 1\<rparr>)"
    by (simp add: web_client samples)
  have reload: "getUsers (web_api server_no_list) \<lparr>sent = [?post], parsed = 1\<rparr> =
      (Inl (Error ''Failed to fetch users''), \<lparr>sent = [?post, ?get], parsed = 1\<rparr>)"
    by (simp add: web_client samples)
  have update: "updateUser (mobile_api server_ok) 1 (formData (st editing)) (netw editing) =
      (Inr ada, \<lparr>sent = [?put], parsed = 1\<rparr>)"
    by (simp add: mobile_client samples)
  have reload': "getUsers (mobile_api server_ok) \<lparr>sent = [?put], parsed = 1\<rparr> =
      (Inr [ada], \<lparr>sent = [?put, ?get'], parsed = 2\<rparr>)"
    by (simp add: mobile_client samples)
  have target: "editingId (st editing) = Some 1" "(1::int) \<noteq> 0"
    by (simp_all add: samples)
  have valid: "filled (formData (st editing))"
    by (simp add: filled_def samples trim_samples)
  have before: "users (st typed) = []"
    by (simp add: samples)
  from mutation_chains_reload [OF reload, where c = typed and u = ada] create
  have web: "reloaded (users (st typed)) (Inl (Error ''Failed to fetch users''))
        (st (App_handleCreate (web_api server_no_list) typed)) \<and>
      netw (App_handleCreate (web_api server_no_list) typed) = \<lparr>sent = [?post, ?get], parsed = 1\<rparr> \<and>
      formData (st (App_handleCreate (web_api server_no_list) typed)) = \<lparr>name = '''', email = ''''\<rparr>"
    by blast
  from mutation_chains_reload [OF reload', where c = editing and i = 1 and u = ada] update target valid
  have mobile: "reloaded (users (st editing)) (Inr [ada])
        (st (Index_handleUpdate (mobile_api server_ok) editing)) \<and>
      netw (Index_handleUpdate (mobile_api server_ok) editing) = \<lparr>sent = [?put, ?get'], parsed = 2\<rparr> \<and>
      formData (st (Index_handleUpdate (mobile_api server_ok) editing)) = \<lparr>name = '''', email = ''''\<rparr> \<and>
      editingId (st (Index_handleUpdate (mobile_api server_ok) editing)) = None"
    by blast
  from web mobile create update target valid before show ?thesis
    by (simp add: reloaded_def error_message_def)
qed

section \<open>Resource Client: failed responses\<close>

text \<open>Every operation sends exactly one request, whatever the answer.\<close>

lemma one_request_each:
  "sent (snd (web_getUsers w n)) =
     sent n @ [\<lparr>http_method = GET, url = API_BASE, content_type = None, body = None\<rparr>]"
  "sent (snd (web_createUser w u n)) =
     sent n @ [\<lparr>http_method = POST, url = API_BASE, content_type = Some ''application/json'',
               body = Some u\<rparr>]"
  "sent (snd (web_updateUser w i u n)) =
     sent n @ [\<lparr>http_method = PUT, url = API_BASE_id i, content_type = Some ''application/json'',
               body = Some u\<rparr>]"
  "sent (snd (web_deleteUser w i n)) =
     sent n @ [\<lparr>http_method = DELETE, url = API_BASE_id i, content_type = None, body = None\<rparr>]"
  "sent (snd (mobile_getUsers w n)) =
     sent n @ [\<lparr>http_method = GET, url = API_BASE_slash, content_type = None, body = None\<rparr>]"
  "sent (snd (mobile_createUser w u n)) =
     sent n @ [\<lparr>http_method = POST, url = API_BASE_slash,
               content_type = Some ''application/json'', body = Some u\<rparr>]"
  "sent (snd (mobile_updateUser w i u n)) =
     sent n @ [\<lparr>http_method = PUT, url = API_BASE_id i, content_type = Some ''application/json'',
               body = Some u\<rparr>]"
  "sent (snd (mobile_deleteUser w i n)) =
     sent n @ [\<lparr>http_method = DELETE, url = API_BASE_id i, content_type = None, body = None\<rparr>]"
  by (simp_all add: web_client mobile_client split: sum.splits)

text \<open>
  On a response outside 200..299 the seven operations other than the web
  \<^verbatim>\<open>createUser\<close> throw their fixed message and read no body.
\<close>

lemma failed_response_unread:
  assumes "\<not> ok res"
  shows
    "w (sent n @ [\<lparr>http_method = GET, url = API_BASE, content_type = None, body = None\<rparr>])
       = Inr res \<Longrightarrow>
     fst (web_getUsers w n) = Inl (Error ''Failed to fetch users'') \<and>
     parsed (snd (web_getUsers w n)) = parsed n"
    "w (sent n @ [\<lparr>http_method = PUT, url = API_BASE_id i,
          content_type = Some ''application/json'', body = Some u\<rparr>]) = Inr res \<Longrightarrow>
     fst (web_updateUser w i u n) = Inl (Error ''Failed to update user'') \<and>
     parsed (snd (web_updateUser w i u n)) = parsed n"
    "w (sent n @ [\<lparr>http_method = DELETE, url = API_BASE_id i, content_type = None,
          body = None\<rparr>]) = Inr res \<Longrightarrow>
     fst (web_deleteUser w i n) = Inl (Error ''Failed to delete user'') \<and>
     parsed (snd (web_deleteUser w i n)) = parsed n \<and>
     fst (mobile_deleteUser w i n) = Inl (Error ''Failed to delete user'') \<and>
     parsed (snd (mobile_deleteUser w i n)) = parsed n"
    "w (sent n @ [\<lparr>http_method = GET, url = API_BASE_slash, content_type = None,
          body = None\<rparr>]) = Inr res \<Longrightarrow>
     fst (mobile_getUsers w n) = Inl (Error ''Failed to fetch users'') \<and>
     parsed (snd (mobile_getUsers w n)) = parsed n"
    "w (sent n @ [\<lparr>http_method = POST, url = API_BASE_slash,
          content_type = Some ''application/json'', body = Some u\<rparr>]) = Inr res \<Longrightarrow>
     fst (mobile_createUser w u n) = Inl (Error ''Failed to create user'') \<and>
     parsed (snd (mobile_createUser w u n)) = parsed n"
    "w (sent n @ [\<lparr>http_method = PUT, url = API_BASE_id i,
          content_type = Some ''application/json'', body = Some u\<rparr>]) = Inr res \<Longrightarrow>
     fst (mobile_updateUser w i u n) = Inl (Error ''Failed to update user'') \<and>
     parsed (snd (mobile_updateUser w i u n)) = parsed n"
  using assms
  by (simp_all add: web_getUsers_def web_updateUser_def web_deleteUser_def mobile_getUsers_def
      mobile_createUser_def mobile_updateUser_def mobile_deleteUser_def fetch_def)

text \<open>
  C5. The web \<^verbatim>\<open>createUser\<close> awaits \<^verbatim>\<open>res.json()\<close> before it tests \<^verbatim>\<open>res.ok\<close>. At a
  response with status 500 whose body is not JSON it sends its one request, reads the
  body (one read is counted) and throws the parser's error, not "Failed to create user".
  The mobile \<^verbatim>\<open>createUser\<close>, at the same response, reads nothing and throws "Failed to
  create user".
\<close>

theorem web_createUser_reads_failed_body:
  "web_createUser server_error \<lparr>name = ''Ada'', email = ''ada@x.com''\<rparr> \<lparr>sent = [], parsed = 0\<rparr> =
     (Inl (Error ''Unexpected token I in JSON at position 0''),
      \<lparr>sent = [\<lparr>http_method = POST, url = API_BASE, content_type = Some ''application/json'',
                body = Some \<lparr>name = ''Ada'', email = ''ada@x.com''\<rparr>\<rparr>],
        parsed = 1\<rparr>) \<and>
   mobile_createUser server_error \<lparr>name = ''Ada'', email = ''ada@x.com''\<rparr> \<lparr>sent = [], parsed = 0\<rparr> =
     (Inl (Error ''Failed to create user''),
      \<lparr>sent = [\<lparr>http_method = POST, url = API_BASE_slash,
                content_type = Some ''application/json'',
                body = Some \<lparr>name = ''Ada'', email = ''ada@x.com''\<rparr>\<rparr>],
        parsed = 0\<rparr>)"
  by (simp add: web_createUser_def mobile_createUser_def fetch_def json_def ok_def
      server_error_def)

section \<open>Validation gate\<close>

text \<open>
  C1, as stated, fails in both front ends at the Draft with name "" and email "x@x.com":
  the web \<^verbatim>\<open>handleCreate\<close> has no validation and sends the POST and the chained GET;
  the mobile \<^verbatim>\<open>handleCreate\<close> refuses, but leaves the Error slot as it was (None).
\<close>

theorem validation_gate_counterexample:
  "trim (name (formData (st blank_name))) = [] \<and>
   sent (netw blank_name) = [] \<and>
   sent (netw (App_handleCreate (web_api server_ok) blank_name)) =
     [\<lparr>http_method = POST, url = API_BASE, content_type = Some ''application/json'',
       body = Some \<lparr>name = '''', email = ''x@x.com''\<rparr>\<rparr>,
      \<lparr>http_method = GET, url = API_BASE, content_type = None, body = None\<rparr>] \<and>
   users (st (App_handleCreate (web_api server_ok) blank_name)) = [ada] \<and>
   error (st (App_handleCreate (web_api server_ok) blank_name)) = None \<and>
   error (st (Index_handleCreate (mobile_api server_ok) blank_name)) = None"
  by (simp add: App_handleCreate_def App_loadUsers_def Index_handleCreate_def setters
      web_client samples trim_samples)

text \<open>
  C1, amended. In the mobile front end, a submit whose Draft has a trimmed-empty name or
  a trimmed-empty email (create mode, or update mode with a target that is neither None
  nor 0) calls no Resource Client operation and no setter: the five state cells (Error
  slot included) and the client state are the ones before, Busy is never raised, and the
  only effect is the alert "Validation Error", "Name and email are required".
\<close>

theorem Index_validation_gate:
  assumes "trim (name (formData (st c))) = [] \<or> trim (email (formData (st c))) = []"
  shows "Index_handleCreate api c =
           c\<lparr>events := events c @ [Alert ''Validation Error'' ''Name and email are required'']\<rparr> \<and>
         (editingId (st c) \<noteq> None \<and> editingId (st c) \<noteq> Some 0 \<longrightarrow>
            Index_handleUpdate api c =
              c\<lparr>events := events c @
                    [Alert ''Validation Error'' ''Name and email are required'']\<rparr>)"
  using assms
  by (auto simp: Index_handleCreate_def Index_handleUpdate_def alert_def split: option.splits)

theorem Index_validation_gate_witness:
  "trim (name (formData (st blank_name))) = [] \<and>
   st (Index_handleCreate (mobile_api server_ok) blank_name) = st blank_name \<and>
   netw (Index_handleCreate (mobile_api server_ok) blank_name) = \<lparr>sent = [], parsed = 0\<rparr> \<and>
   events (Index_handleCreate (mobile_api server_ok) blank_name) =
     [Alert ''Validation Error'' ''Name and email are required''] \<and>
   trim (name (formData (st editing_blank))) = [] \<and>
   editingId (st editing_blank) = Some 1 \<and>
   st (Index_handleUpdate (mobile_api server_ok) editing_blank) = st editing_blank \<and>
   netw (Index_handleUpdate (mobile_api server_ok) editing_blank) = \<lparr>sent = [], parsed = 0\<rparr> \<and>
   events (Index_handleUpdate (mobile_api server_ok) editing_blank) =
     [Alert ''Validation Error'' ''Name and email are required'']"
proof -
  have create: "trim (name (formData (st blank_name))) = []"
    by (simp add: samples trim_samples)
  have update: "trim (name (formData (st editing_blank))) = []"
    by (simp add: samples trim_samples)
  have target: "editingId (st editing_blank) = Some 1"
    by (simp add: samples)
  have empty: "events blank_name = []" "netw blank_name = \<lparr>sent = [], parsed = 0\<rparr>"
    "events editing_blank = []" "netw editing_blank = \<lparr>sent = [], parsed = 0\<rparr>"
    by (simp_all add: samples)
  from Index_validation_gate [of blank_name "mobile_api server_ok"] create
  have c: "Index_handleCreate (mobile_api server_ok) blank_name =
      blank_name\<lparr>events := events blank_name @
        [Alert ''Validation Error'' ''Name and email are required'']\<rparr>"
    by blast
  from Index_validation_gate [of editing_blank "mobile_api server_ok"] update target
  have u: "Index_handleUpdate (mobile_api server_ok) editing_blank =
      editing_blank\<lparr>events := events editing_blank @
        [Alert ''Validation Error'' ''Name and email are required'']\<rparr>"
    by simp
  from create update target show ?thesis
    by (simp add: c u empty)
qed

section \<open>Single flight\<close>

text \<open>
  C2, as stated, fails: with Busy true, the web \<^verbatim>\<open>handleDelete\<close> sends the DELETE and
  the chained GET and replaces the Collection Cache.
\<close>

theorem single_flight_counterexample:
  "loading (st busy) \<and> sent (netw busy) = [] \<and> users (st busy) = [] \<and>
   sent (netw (App_handleDelete (web_api server_ok) 1 busy)) =
     [\<lparr>http_method = DELETE, url = API_BASE_id 1, content_type = None, body = None\<rparr>,
      \<lparr>http_method = GET, url = API_BASE, content_type = None, body = None\<rparr>] \<and>
   users (st (App_handleDelete (web_api server_ok) 1 busy)) = [ada]"
  by (simp add: App_handleDelete_def App_loadUsers_def setters web_client samples)

lemma App_loadUsers_busy:
  "with_loading False (App_loadUsers api (with_loading True c)) =
   with_loading False (App_loadUsers api (with_loading False c))"
  by (simp add: App_loadUsers_def with_loading_def setters split: prod.splits sum.splits)

lemma Index_loadUsers_busy:
  "with_loading False (Index_loadUsers api (with_loading True c)) =
   with_loading False (Index_loadUsers api (with_loading False c))"
  by (simp add: Index_loadUsers_def with_loading_def setters Let_def
      split: prod.splits sum.splits)

lemma App_handleCreate_busy:
  "with_loading False (App_handleCreate api (with_loading True c)) =
   with_loading False (App_handleCreate api (with_loading False c))"
  by (simp add: App_handleCreate_def App_loadUsers_def with_loading_def setters
      split: prod.splits sum.splits)

lemma App_handleUpdate_busy:
  "with_loading False (App_handleUpdate api (with_loading True c)) =
   with_loading False (App_handleUpdate api (with_loading False c))"
  by (simp add: App_handleUpdate_def App_loadUsers_def with_loading_def setters
      split: prod.splits sum.splits option.splits)

lemma App_handleDelete_busy:
  "with_loading False (App_handleDelete api i (with_loading True c)) =
   with_loading False (App_handleDelete api i (with_loading False c))"
  by (simp add: App_handleDelete_def App_loadUsers_def with_loading_def setters
      split: prod.splits sum.splits)

lemma Index_handleCreate_busy:
  "with_loading False (Index_handleCreate api (with_loading True c)) =
   with_loading False (Index_handleCreate api (with_loading False c))"
  by (simp add: Index_handleCreate_def Index_loadUsers_def with_loading_def setters Let_def
      split: prod.splits sum.splits)

lemma Index_handleUpdate_busy:
  "with_loading False (Index_handleUpdate api (with_loading True c)) =
   with_loading False (Index_handleUpdate api (with_loading False c))"
  by (simp add: Index_handleUpdate_def Index_loadUsers_def with_loading_def setters Let_def
      split: prod.splits sum.splits option.splits)

lemma Index_handleDelete_busy:
  "with_loading False (Index_handleDelete api i answer (with_loading True c)) =
   with_loading False (Index_handleDelete api i answer (with_loading False c))"
  by (simp add: Index_handleDelete_def Index_loadUsers_def with_loading_def setters Let_def
      split: prod.splits sum.splits)

text \<open>
  C2, amended. No handler reads the Busy flag. Called while Busy, \<^verbatim>\<open>loadUsers\<close>,
  \<^verbatim>\<open>handleCreate\<close>, \<^verbatim>\<open>handleUpdate\<close> and \<^verbatim>\<open>handleDelete\<close> make the Resource Client
  calls and the setter calls they make when called while Idle, and end with the same
  Collection Cache, Draft, EditTarget and Error slot: the two runs differ at most in the
  Busy flag they end with. Both front ends.
\<close>

theorem handlers_ignore_busy:
  "with_loading False (App_loadUsers api (with_loading True c)) =
     with_loading False (App_loadUsers api (with_loading False c)) \<and>
   with_loading False (App_handleCreate api (with_loading True c)) =
     with_loading False (App_handleCreate api (with_loading False c)) \<and>
   with_loading False (App_handleUpdate api (with_loading True c)) =
     with_loading False (App_handleUpdate api (with_loading False c)) \<and>
   with_loading False (App_handleDelete api i (with_loading True c)) =
     with_loading False (App_handleDelete api i (with_loading False c)) \<and>
   with_loading False (Index_loadUsers api (with_loading True c)) =
     with_loading False (Index_loadUsers api (with_loading False c)) \<and>
   with_loading False (Index_handleCreate api (with_loading True c)) =
     with_loading False (Index_handleCreate api (with_loading False c)) \<and>
   with_loading False (Index_handleUpdate api (with_loading True c)) =
     with_loading False (Index_handleUpdate api (with_loading False c)) \<and>
   with_loading False (Index_handleDelete api i answer (with_loading True c)) =
     with_loading False (Index_handleDelete api i answer (with_loading False c))"
  by (simp only: App_loadUsers_busy App_handleCreate_busy App_handleUpdate_busy
      App_handleDelete_busy Index_loadUsers_busy Index_handleCreate_busy
      Index_handleUpdate_busy Index_handleDelete_busy simp_thms)

section \<open>The two front ends\<close>

text \<open>
  C3, as stated, fails: on the Draft with name "" and email "x@x.com", against a server
  that answers both front ends alike, the web \<^verbatim>\<open>handleCreate\<close> sends the request,
  empties the Draft and replaces the Collection Cache, and the mobile \<^verbatim>\<open>handleCreate\<close>
  leaves the five state cells as they were.
\<close>

theorem front_ends_differ_counterexample:
  "st (App_handleCreate (web_api server_ok) blank_name) =
     initial\<lparr>users := [ada], formData := \<lparr>name = '''', email = ''''\<rparr>\<rparr> \<and>
   st (Index_handleCreate (mobile_api server_ok) blank_name) =
     initial\<lparr>formData := \<lparr>name = '''', email = ''x@x.com''\<rparr>\<rparr> \<and>
   st (App_handleCreate (web_api server_ok) blank_name) \<noteq>
     st (Index_handleCreate (mobile_api server_ok) blank_name)"
  by (simp add: App_handleCreate_def App_loadUsers_def Index_handleCreate_def setters
      web_client samples trim_samples)

lemma handleCreate_same_state:
  assumes "same_state c c'" and "filled (formData (st c))"
  shows "same_state (App_handleCreate api c) (Index_handleCreate api c')"
  using assms
  by (simp add: same_state_def App_handleCreate_def Index_handleCreate_def App_loadUsers_def
      Index_loadUsers_def filled_def setters Let_def split: prod.splits sum.splits)

lemma handleUpdate_same_state:
  assumes "same_state c c'"
    and "filled (formData (st c)) \<or> editingId (st c) = None \<or> editingId (st c) = Some 0"
  shows "same_state (App_handleUpdate api c) (Index_handleUpdate api c')"
proof (cases "editingId (st c) = None \<or> editingId (st c) = Some 0")
  case True
  with assms(1) have "editingId (st c') = None \<or> editingId (st c') = Some 0"
    by (simp add: same_state_def)
  with True assms(1) show ?thesis
    by (auto simp: App_handleUpdate_def Index_handleUpdate_def)
next
  case False
  with assms(2) have "filled (formData (st c))"
    by simp
  with False assms(1) show ?thesis
    by (simp add: same_state_def App_handleUpdate_def Index_handleUpdate_def App_loadUsers_def
        Index_loadUsers_def filled_def setters Let_def
        split: prod.splits sum.splits option.splits)
qed

lemma handleDelete_same_state:
  assumes "same_state c c'"
  shows "same_state (App_handleDelete api i c) (Index_handleDelete api i True c')"
  using assms
  by (simp add: same_state_def App_handleDelete_def Index_handleDelete_def App_loadUsers_def
      Index_loadUsers_def setters Let_def split: prod.splits sum.splits)

lemma edit_same_state:
  assumes "same_state c c'"
  shows "same_state (App_startEdit u c) (Index_startEdit u c')"
    and "same_state (App_cancelEdit c) (Index_cancelEdit c')"
  using assms
  by (simp_all add: same_state_def App_startEdit_def Index_startEdit_def App_cancelEdit_def
      Index_cancelEdit_def setters)

lemma call_same_state:
  assumes "same_state c c'" and "passes x (st c)"
  shows "same_state (App_call api x c) (Index_call api x c')"
proof (cases x)
  case LoadUsers
  with assms show ?thesis by (simp add: loadUsers_same_state)
next
  case HandleCreate
  with assms show ?thesis by (simp add: handleCreate_same_state)
next
  case HandleUpdate
  with assms show ?thesis by (simp add: handleUpdate_same_state)
next
  case (HandleDelete i answer)
  with assms show ?thesis by (simp add: handleDelete_same_state)
next
  case (StartEdit u)
  with assms show ?thesis by (simp add: edit_same_state)
next
  case CancelEdit
  with assms show ?thesis by (simp add: edit_same_state)
qed

text \<open>
  C3, amended. Started from the same five state cells and the same client state, and
  given the same Resource Client, the web and the mobile front end end every sequence of
  handler calls with the same five state cells and the same client state, provided that
  at every call of the sequence the mobile gates are open: no submit is made on a Draft
  whose trimmed name or email is empty (an update without target apart, which both front
  ends drop), and every delete confirmation is given. (The events differ: the mobile
  front end also raises alerts.)
\<close>

theorem front_ends_agree:
  assumes "same_state c c'" and "unrefused api xs c"
  shows "same_state (App_run api xs c) (Index_run api xs c')"
  using assms
proof (induction xs arbitrary: c c')
  case Nil
  then show ?case by simp
next
  case (Cons x xs)
  from Cons.prems have step: "same_state (App_call api x c) (Index_call api x c')"
    by (simp add: call_same_state)
  from Cons.prems have rest: "unrefused api xs (App_call api x c)"
    by simp
  from Cons.IH [OF step rest] show ?case
    by simp
qed

theorem front_ends_agree_witness:
  "same_state typed (typed\<lparr>events := [Alert ''Error'' ''Failed to fetch users'']\<rparr>) \<and>
   unrefused (web_api server_ok)
     [LoadUsers, HandleCreate, StartEdit ada, HandleUpdate, HandleDelete 1 True, CancelEdit] typed \<and>
   same_state
     (App_run (web_api server_ok)
        [LoadUsers, HandleCreate, StartEdit ada, HandleUpdate, HandleDelete 1 True, CancelEdit]
        typed)
     (Index_run (web_api server_ok)
        [LoadUsers, HandleCreate, StartEdit ada, HandleUpdate, HandleDelete 1 True, CancelEdit]
        (typed\<lparr>events := [Alert ''Error'' ''Failed to fetch users'']\<rparr>)) \<and>
   users (st (App_run (web_api server_ok)
        [LoadUsers, HandleCreate, StartEdit ada, HandleUpdate, HandleDelete 1 True, CancelEdit]
        typed)) = [ada]"
proof -
  let ?xs = "[LoadUsers, HandleCreate, StartEdit ada, HandleUpdate, HandleDelete 1 True,
    CancelEdit]"
  have same: "same_state typed (typed\<lparr>events := [Alert ''Error'' ''Failed to fetch users'']\<rparr>)"
    by (simp add: same_state_def)
  have open_gates: "unrefused (web_api server_ok) ?xs typed"
    by (simp add: App_loadUsers_def App_handleCreate_def App_handleUpdate_def App_handleDelete_def
        App_startEdit_def App_cancelEdit_def setters web_client server_ok_def filled_def
        typed_def start_def initial_def ada_def trim_samples)
  have result: "users (st (App_run (web_api server_ok) ?xs typed)) = [ada]"
    by (simp add: App_loadUsers_def App_handleCreate_def App_handleUpdate_def App_handleDelete_def
        App_startEdit_def App_cancelEdit_def setters web_client server_ok_def
        typed_def start_def initial_def)
  from front_ends_agree [OF same open_gates] same open_gates result show ?thesis
    by simp
qed

end
